theory Spec2Isabelle
  imports Main "HOL-Library.Word"
begin

unbundle bit_operations_syntax

section \<open>Data\<close>

text \<open>
  A Python \<open>str\<close> is a sequence of code points, a \<open>bytes\<close> object a sequence of
  octets.  String literals of the script are written as HOL strings and turned into
  code points by \<open>str\<close>.
\<close>

type_synonym pystr = "nat list"
type_synonym byte = "8 word"
type_synonym lane = "64 word"

definition str :: "string \<Rightarrow> pystr" where
  "str s = map of_char s"

datatype error = EOFError | RuntimeError | UnicodeDecodeError | UnicodeEncodeError

text \<open>
  Text in the sense of the Unicode standard: every code point is a scalar value, that
  is below \<open>0x110000\<close> and not a surrogate.
\<close>

definition scalar_value :: "nat \<Rightarrow> bool" where
  "scalar_value c = (c < 0x110000 \<and> \<not> (0xD800 \<le> c \<and> c \<le> 0xDFFF))"

definition unicode_text :: "pystr \<Rightarrow> bool" where
  "unicode_text s = list_all scalar_value s"

section \<open>\<open>str.encode()\<close>\<close>

text \<open>
  Modelled from the spec: \<open>nama_ibu.encode()\<close> is the interpreter's built-in, called
  with its defaults (UTF-8, strict error handling); the spec calls its result the UTF-8
  byte encoding of the text.  A surrogate code point has no UTF-8 encoding and raises
  \<open>UnicodeEncodeError\<close>.
\<close>

definition encode_char :: "nat \<Rightarrow> error + byte list" where
  "encode_char ch =
     (if ch < 0x80 then Inr [of_nat ch]
      else if ch < 0x800 then
        Inr [of_nat (0xC0 + ch div 0x40), of_nat (0x80 + ch mod 0x40)]
      else if 0xD800 \<le> ch \<and> ch \<le> 0xDFFF then Inl UnicodeEncodeError
      else if ch < 0x10000 then
        Inr [of_nat (0xE0 + ch div 0x1000), of_nat (0x80 + ch div 0x40 mod 0x40),
             of_nat (0x80 + ch mod 0x40)]
      else
        Inr [of_nat (0xF0 + ch div 0x40000), of_nat (0x80 + ch div 0x1000 mod 0x40),
             of_nat (0x80 + ch div 0x40 mod 0x40), of_nat (0x80 + ch mod 0x40)])"

fun encode :: "pystr \<Rightarrow> error + byte list" where
  "encode [] = Inr []"
| "encode (ch # s) =
     (case encode_char ch of
        Inl e \<Rightarrow> Inl e
      | Inr bs \<Rightarrow> (case encode s of Inl e \<Rightarrow> Inl e | Inr rest \<Rightarrow> Inr (bs @ rest)))"

section \<open>\<open>sha3.keccak_256\<close>\<close>

text \<open>
  Modelled from the spec: \<open>sha3.keccak_256\<close> is the external hash primitive, Keccak-256
  with the padding that predates the NIST standard, over an arbitrary byte sequence and
  with a 32-byte output.  The definitions follow the Keccak reference: the state is 25
  lanes of 64 bits, lane \<open>(x, y)\<close> at index \<open>x + 5 * y\<close>; 24 rounds of
  \<open>\<theta>\<close>, \<open>\<rho>\<close>, \<open>\<pi>\<close>, \<open>\<chi>\<close>, \<open>\<iota>\<close>;
  a sponge of rate 136 bytes, padded with \<open>0x01 .. 0x80\<close>.
\<close>

definition ROL64 :: "lane \<Rightarrow> nat \<Rightarrow> lane" where
  "ROL64 a n = push_bit (n mod 64) a OR drop_bit (64 - n mod 64) a"

definition RC :: "lane list" where
  "RC = [0x0000000000000001, 0x0000000000008082, 0x800000000000808A, 0x8000000080008000,
         0x000000000000808B, 0x0000000080000001, 0x8000000080008081, 0x8000000000008009,
         0x000000000000008A, 0x0000000000000088, 0x0000000080008009, 0x000000008000000A,
         0x000000008000808B, 0x800000000000008B, 0x8000000000008089, 0x8000000000008003,
         0x8000000000008002, 0x8000000000000080, 0x000000000000800A, 0x800000008000000A,
         0x8000000080008081, 0x8000000000008080, 0x0000000080000001, 0x8000000080008008]"

definition rot_offsets :: "nat list" where
  "rot_offsets = [ 0,  1, 62, 28, 27,
                  36, 44,  6, 55, 20,
                   3, 10, 43, 25, 39,
                  41, 45, 15, 21,  8,
                  18,  2, 61, 56, 14]"

definition theta :: "lane list \<Rightarrow> lane list" where
  "theta A =
     (let C = map (\<lambda>x. A ! x XOR A ! (x + 5) XOR A ! (x + 10) XOR A ! (x + 15) XOR A ! (x + 20))
                [0..<5];
          D = map (\<lambda>x. C ! ((x + 4) mod 5) XOR ROL64 (C ! ((x + 1) mod 5)) 1) [0..<5]
      in map (\<lambda>i. A ! i XOR D ! (i mod 5)) [0..<25])"

definition rho_pi :: "lane list \<Rightarrow> lane list" where
  "rho_pi A =
     map (\<lambda>i. let x = i mod 5; y = i div 5; s = (x + 3 * y) mod 5 + 5 * x
              in ROL64 (A ! s) (rot_offsets ! s)) [0..<25]"

definition chi :: "lane list \<Rightarrow> lane list" where
  "chi B =
     map (\<lambda>i. let x = i mod 5; y = i div 5
              in B ! i XOR (NOT (B ! ((x + 1) mod 5 + 5 * y)) AND B ! ((x + 2) mod 5 + 5 * y)))
         [0..<25]"

definition iota :: "nat \<Rightarrow> lane list \<Rightarrow> lane list" where
  "iota r A = A[0 := A ! 0 XOR RC ! r]"

definition keccak_round :: "lane list \<Rightarrow> nat \<Rightarrow> lane list" where
  "keccak_round A r = iota r (chi (rho_pi (theta A)))"

definition keccak_f :: "lane list \<Rightarrow> lane list" where
  "keccak_f A = foldl keccak_round A [0..<24]"

definition load_lane :: "byte list \<Rightarrow> lane" where
  "load_lane bs = foldr (\<lambda>b acc. push_bit 8 acc OR ucast b) bs 0"

definition store_lane :: "lane \<Rightarrow> byte list" where
  "store_lane w = map (\<lambda>i. ucast (drop_bit (8 * i) w)) [0..<8]"

definition xor_block :: "lane list \<Rightarrow> byte list \<Rightarrow> lane list" where
  "xor_block A blk =
     map (\<lambda>i. if i < 17 then A ! i XOR load_lane (take 8 (drop (8 * i) blk)) else A ! i)
         [0..<25]"

definition pad :: "byte list \<Rightarrow> byte list" where
  "pad m = (let q = 136 - length m mod 136
            in if q = 1 then m @ [0x81] else m @ [0x01] @ replicate (q - 2) 0 @ [0x80])"

function absorb :: "lane list \<Rightarrow> byte list \<Rightarrow> lane list" where
  "absorb A bs =
     (if length bs < 136 then A
      else absorb (keccak_f (xor_block A (take 136 bs))) (drop 136 bs))"
  by pat_completeness auto
termination
  by (relation "measure (\<lambda>(A, bs). length bs)") auto

declare absorb.simps [simp del]

definition keccak_256 :: "byte list \<Rightarrow> byte list" where
  "keccak_256 m = take 32 (concat (map store_lane (absorb (replicate 25 0) (pad m))))"

text \<open>\<open>hexdigest()\<close>: two lowercase hexadecimal digits for each byte of the digest.\<close>

definition hex_digit :: "nat \<Rightarrow> char" where
  "hex_digit n = ''0123456789abcdef'' ! n"

definition hexdigest :: "byte list \<Rightarrow> string" where
  "hexdigest bs = concat (map (\<lambda>b. [hex_digit (unat b div 16), hex_digit (unat b mod 16)]) bs)"

definition is_lower_hex :: "char \<Rightarrow> bool" where
  "is_lower_hex c = (c \<in> set ''0123456789abcdef'')"

section \<open>The script\<close>

text \<open>
  The world the script runs in: the lines standard input still holds; what the reader
  meets once they are used up (the end of the file, bytes that are not text in the
  stream's encoding, or no stream at all: the interpreter was started with standard
  input closed and \<open>sys.stdin\<close> is \<open>None\<close>); the status the command interpreter gives
  each command; and the effects so far, oldest first.
\<close>

datatype event = Stdout pystr | Prompt pystr | Shell string

datatype stream_end = EndOfFile | Closed | Undecodable

record world =
  stdin :: "pystr list"
  stdin_end :: stream_end
  shell :: "string \<Rightarrow> int"
  trace :: "event list"

text \<open>\<open>print(*args)\<close>: the arguments joined by one space, then a newline.\<close>

fun join :: "pystr list \<Rightarrow> pystr" where
  "join [] = []"
| "join [a] = a"
| "join (a # b # as) = a @ [32] @ join (b # as)"

definition print :: "pystr list \<Rightarrow> world \<Rightarrow> world" where
  "print args w = w\<lparr>trace := trace w @ [Stdout (join args @ [10])]\<rparr>"

text \<open>
  \<open>input(prompt)\<close>: with no input stream it raises \<open>RuntimeError\<close> at once; otherwise
  it shows the prompt and reads one line, raising \<open>EOFError\<close> at the end of the file and
  \<open>UnicodeDecodeError\<close> on bytes that are not text.
\<close>

definition input :: "pystr \<Rightarrow> world \<Rightarrow> (error + pystr) \<times> world" where
  "input prompt w =
     (if stdin w = [] \<and> stdin_end w = Closed then (Inl RuntimeError, w)
      else
        (let w' = w\<lparr>trace := trace w @ [Prompt prompt]\<rparr>
         in case stdin w of
              [] \<Rightarrow>
                (Inl (if stdin_end w = Undecodable then UnicodeDecodeError else EOFError), w')
            | line # rest \<Rightarrow> (Inr line, w'\<lparr>stdin := rest\<rparr>)))"


text \<open>\<open>os.system(cmd)\<close>: runs the command and returns its status; it does not raise.\<close>

definition os_system :: "string \<Rightarrow> world \<Rightarrow> int \<times> world" where
  "os_system cmd w = (shell w cmd, w\<lparr>trace := trace w @ [Shell cmd]\<rparr>)"

text \<open>The names the script has bound when it ends.\<close>

record namespace =
  nama_ibu :: pystr
  encoded :: "byte list"
  obj_encoded :: "byte list"
  digest_hex :: string

definition banner :: pystr where
  "banner = str ''Implementasi Keccak 256 di python'' @ [10]"

definition rule_line :: pystr where
  "rule_line = str ''+++++++++++++++++++++++++++++++++++++''"

definition prompt_text :: pystr where
  "prompt_text = str ''Masukan Nama Ibu kandung: ''"

definition label_before :: pystr where
  "label_before = str ''Nama Ibu kandung sebelum di hash: '' @ [10]"

definition label_after :: pystr where
  "label_after = str ''Nama Ibu kandung setelah di hash: '' @ [10]"

definition main :: "world \<Rightarrow> (error + namespace) \<times> world" where
  "main w0 =
     (let w1 = print [banner] w0;
          w2 = print [rule_line] w1
      in case input prompt_text w2 of
           (Inl e, w3) \<Rightarrow> (Inl e, w3)
         | (Inr line, w3) \<Rightarrow>
             (case os_system ''CLS'' w3 of
                (status, w4) \<Rightarrow>
                  (let w5 = print [label_before, line] w4
                   in case encode line of
                        Inl e \<Rightarrow> (Inl e, w5)
                      | Inr bs \<Rightarrow>
                          (let digest = keccak_256 bs;
                               w6 = print [label_after, str (hexdigest digest)] w5
                           in (Inr \<lparr>nama_ibu = line, encoded = bs, obj_encoded = digest,
                                     digest_hex = hexdigest digest\<rparr>, w6)))))"


text \<open>The texts the two output statements of the script write.\<close>

definition echo_line :: "pystr \<Rightarrow> pystr" where
  "echo_line line = join [label_before, line] @ [10]"

definition digest_line :: "byte list \<Rightarrow> pystr" where
  "digest_line bs = join [label_after, str (hexdigest (keccak_256 bs))] @ [10]"

text \<open>\<open>x\<close> occurs in the trace, and \<open>y\<close> occurs after it.\<close>

fun occurs_before :: "'a \<Rightarrow> 'a \<Rightarrow> 'a list \<Rightarrow> bool" where
  "occurs_before x y [] = False"
| "occurs_before x y (e # es) = ((e = x \<and> y \<in> set es) \<or> occurs_before x y es)"

text \<open>
  Concrete worlds: the user types \<open>abc\<close>; the line read is \<open>a\<close> followed by the lone
  surrogate \<open>U+DCFF\<close> (what a reader with the \<open>surrogateescape\<close> handler makes of the
  byte \<open>0xFF\<close>); standard input is at its end, closed, or holds bytes that are not text.
\<close>

definition abc_world :: world where
  "abc_world =
     \<lparr>stdin = [str ''abc''], stdin_end = EndOfFile, shell = (\<lambda>cmd. 1), trace = []\<rparr>"


definition surrogate_world :: world where
  "surrogate_world =
     \<lparr>stdin = [[0x61, 0xDCFF]], stdin_end = EndOfFile, shell = (\<lambda>cmd. 1), trace = []\<rparr>"


definition empty_line_world :: world where
  "empty_line_world =
     \<lparr>stdin = [[]], stdin_end = EndOfFile, shell = (\<lambda>cmd. 1), trace = []\<rparr>"




section \<open>Facts about the encoding and the hash\<close>

lemma encode_char_scalar: "scalar_value c \<Longrightarrow> \<exists>bs. encode_char c = Inr bs"
  by (simp add: encode_char_def scalar_value_def)

lemma encode_unicode_text: "unicode_text s \<Longrightarrow> \<exists>bs. encode s = Inr bs"
proof (induction s)
  case Nil
  then show ?case by simp
next
  case (Cons c s)
  from Cons.prems have c: "scalar_value c" and s: "unicode_text s"
    by (simp_all add: unicode_text_def)
  from encode_char_scalar [OF c] obtain b where b: "encode_char c = Inr b" ..
  from Cons.IH [OF s] obtain bs where bs: "encode s = Inr bs" ..
  show ?case by (simp add: b bs)
qed

lemma encode_char_surrogate:
  "0xD800 \<le> c \<Longrightarrow> c \<le> 0xDFFF \<Longrightarrow> encode_char c = Inl UnicodeEncodeError"
  by (simp add: encode_char_def)

lemma length_keccak_round: "length (keccak_round A r) = 25"
  by (simp add: keccak_round_def iota_def chi_def)

lemma length_foldl_keccak_round:
  "length A = 25 \<Longrightarrow> length (foldl keccak_round A rs) = 25"
  by (induction rs arbitrary: A) (simp_all add: length_keccak_round)

lemma length_keccak_f: "length A = 25 \<Longrightarrow> length (keccak_f A) = 25"
  by (simp add: keccak_f_def length_foldl_keccak_round)

lemma length_xor_block: "length (xor_block A blk) = 25"
  by (simp add: xor_block_def)

lemma length_absorb: "length A = 25 \<Longrightarrow> length (absorb A bs) = 25"
proof (induction A bs rule: absorb.induct)
  case (1 A bs)
  show ?case
  proof (cases "length bs < 136")
    case True
    then show ?thesis using "1.prems" by (simp add: absorb.simps [of A bs])
  next
    case False
    have "length (keccak_f (xor_block A (take 136 bs))) = 25"
      by (simp add: length_keccak_f length_xor_block)
    from "1.IH" [OF False this] False show ?thesis
      by (simp add: absorb.simps [of A bs])
  qed
qed

lemma length_store_lane: "length (store_lane w) = 8"
  by (simp add: store_lane_def)

lemma length_concat_store_lane: "length (concat (map store_lane A)) = 8 * length A"
  by (induction A) (simp_all add: length_store_lane)

lemma length_keccak_256: "length (keccak_256 m) = 32"
  by (simp add: keccak_256_def length_concat_store_lane length_absorb)

lemma length_hexdigest: "length (hexdigest bs) = 2 * length bs"
  by (induction bs) (simp_all add: hexdigest_def)

lemma hex_digit_lower: "n < 16 \<Longrightarrow> is_lower_hex (hex_digit n)"
proof -
  assume "n < 16"
  then consider "n = 0" | "n = 1" | "n = 2" | "n = 3" | "n = 4" | "n = 5" | "n = 6" | "n = 7"
    | "n = 8" | "n = 9" | "n = 10" | "n = 11" | "n = 12" | "n = 13" | "n = 14" | "n = 15"
    by atomize_elim arith
  then show ?thesis
    by cases (simp_all add: is_lower_hex_def hex_digit_def)
qed

lemma unat_byte_div_16: "unat (b :: byte) div 16 < 16"
proof -
  have "unat b < 256" using unsigned_less [of b, where 'a = nat] by simp
  then show ?thesis by simp
qed

lemma hexdigest_lower: "list_all is_lower_hex (hexdigest bs)"
  by (induction bs) (simp_all add: hexdigest_def hex_digit_lower unat_byte_div_16)

section \<open>Evaluating the permutation\<close>

text \<open>
  The steps of a round on a state written out lane by lane, and the lane operations on
  numerals reduced to the bitwise functions on binary numerals, so that the simplifier
  computes a digest with these rules alone.
\<close>

lemma upt5: "[0..<5] = [0, 1, 2, 3, 4]"
  by code_simp

lemma upt8: "[0..<8] = [0, 1, 2, 3, 4, 5, 6, 7]"
  by code_simp

lemma upt24:
  "[0..<24] =
     [0, 1, 2, 3, 4, 5, 6, 7, 8, 9, 10, 11, 12, 13, 14, 15, 16, 17, 18, 19, 20, 21, 22, 23]"
  by code_simp

lemma upt25:
  "[0..<25] =
     [0, 1, 2, 3, 4, 5, 6, 7, 8, 9, 10, 11, 12, 13, 14, 15, 16, 17, 18, 19, 20, 21, 22, 23, 24]"
  by code_simp

lemma theta_lanes:
  "theta
     [a0, a1, a2, a3, a4, a5, a6, a7, a8, a9, a10, a11, a12, a13, a14, a15, a16, a17, a18, a19,
      a20, a21, a22, a23, a24] =
     (let c0 = a0 XOR a5 XOR a10 XOR a15 XOR a20;
          c1 = a1 XOR a6 XOR a11 XOR a16 XOR a21;
          c2 = a2 XOR a7 XOR a12 XOR a17 XOR a22;
          c3 = a3 XOR a8 XOR a13 XOR a18 XOR a23;
          c4 = a4 XOR a9 XOR a14 XOR a19 XOR a24;
          d0 = c4 XOR (push_bit 1 c1 OR drop_bit 63 c1);
          d1 = c0 XOR (push_bit 1 c2 OR drop_bit 63 c2);
          d2 = c1 XOR (push_bit 1 c3 OR drop_bit 63 c3);
          d3 = c2 XOR (push_bit 1 c4 OR drop_bit 63 c4);
          d4 = c3 XOR (push_bit 1 c0 OR drop_bit 63 c0)
      in
         [a0 XOR d0, a1 XOR d1, a2 XOR d2, a3 XOR d3, a4 XOR d4, a5 XOR d0, a6 XOR d1,
          a7 XOR d2, a8 XOR d3, a9 XOR d4, a10 XOR d0, a11 XOR d1, a12 XOR d2, a13 XOR d3,
          a14 XOR d4, a15 XOR d0, a16 XOR d1, a17 XOR d2, a18 XOR d3, a19 XOR d4, a20 XOR d0,
          a21 XOR d1, a22 XOR d2, a23 XOR d3, a24 XOR d4])"
  by (simp add: theta_def Let_def upt5 upt25 ROL64_def)

lemma rho_pi_lanes:
  "rho_pi
     [a0, a1, a2, a3, a4, a5, a6, a7, a8, a9, a10, a11, a12, a13, a14, a15, a16, a17, a18, a19,
      a20, a21, a22, a23, a24] =
     [a0, push_bit 44 a6 OR drop_bit 20 a6, push_bit 43 a12 OR drop_bit 21 a12,
      push_bit 21 a18 OR drop_bit 43 a18, push_bit 14 a24 OR drop_bit 50 a24,
      push_bit 28 a3 OR drop_bit 36 a3, push_bit 20 a9 OR drop_bit 44 a9,
      push_bit 3 a10 OR drop_bit 61 a10, push_bit 45 a16 OR drop_bit 19 a16,
      push_bit 61 a22 OR drop_bit 3 a22, push_bit 1 a1 OR drop_bit 63 a1,
      push_bit 6 a7 OR drop_bit 58 a7, push_bit 25 a13 OR drop_bit 39 a13,
      push_bit 8 a19 OR drop_bit 56 a19, push_bit 18 a20 OR drop_bit 46 a20,
      push_bit 27 a4 OR drop_bit 37 a4, push_bit 36 a5 OR drop_bit 28 a5,
      push_bit 10 a11 OR drop_bit 54 a11, push_bit 15 a17 OR drop_bit 49 a17,
      push_bit 56 a23 OR drop_bit 8 a23, push_bit 62 a2 OR drop_bit 2 a2,
      push_bit 55 a8 OR drop_bit 9 a8, push_bit 39 a14 OR drop_bit 25 a14,
      push_bit 41 a15 OR drop_bit 23 a15, push_bit 2 a21 OR drop_bit 62 a21]"
  by (simp add: rho_pi_def Let_def upt25 rot_offsets_def ROL64_def)

lemma chi_lanes:
  "chi
     [a0, a1, a2, a3, a4, a5, a6, a7, a8, a9, a10, a11, a12, a13, a14, a15, a16, a17, a18, a19,
      a20, a21, a22, a23, a24] =
     [a0 XOR (NOT a1 AND a2), a1 XOR (NOT a2 AND a3), a2 XOR (NOT a3 AND a4),
      a3 XOR (NOT a4 AND a0), a4 XOR (NOT a0 AND a1), a5 XOR (NOT a6 AND a7),
      a6 XOR (NOT a7 AND a8), a7 XOR (NOT a8 AND a9), a8 XOR (NOT a9 AND a5),
      a9 XOR (NOT a5 AND a6), a10 XOR (NOT a11 AND a12), a11 XOR (NOT a12 AND a13),
      a12 XOR (NOT a13 AND a14), a13 XOR (NOT a14 AND a10), a14 XOR (NOT a10 AND a11),
      a15 XOR (NOT a16 AND a17), a16 XOR (NOT a17 AND a18), a17 XOR (NOT a18 AND a19),
      a18 XOR (NOT a19 AND a15), a19 XOR (NOT a15 AND a16), a20 XOR (NOT a21 AND a22),
      a21 XOR (NOT a22 AND a23), a22 XOR (NOT a23 AND a24), a23 XOR (NOT a24 AND a20),
      a24 XOR (NOT a20 AND a21)]"
  by (simp add: chi_def Let_def upt25)

lemma iota_lanes: "iota r (a # as) = (a XOR RC ! r) # as"
  by (simp add: iota_def)

lemma lane_xor:
  "(numeral m :: lane) XOR numeral n =
     (case xor_num m n of None \<Rightarrow> 0 | Some q \<Rightarrow> numeral q)"
  by (simp add: numeral_xor_num split: option.split)

lemma lane_xor_0: "(0 :: lane) XOR a = a" "a XOR (0 :: lane) = a"
  by simp_all

lemma lane_or: "(numeral m :: lane) OR numeral n = numeral (or_num m n)"
  by (simp add: numeral_or_num)

lemma lane_or_0: "(0 :: lane) OR a = a" "a OR (0 :: lane) = a"
  by simp_all

lemma lane_not_and:
  "NOT (numeral m :: lane) AND numeral n =
     (case and_not_num n m of None \<Rightarrow> 0 | Some q \<Rightarrow> numeral q)"
proof -
  have "NOT (numeral m :: lane) AND numeral n = word_of_int (numeral n AND NOT (numeral m))"
    by (simp add: and.commute)
  also have "\<dots> = word_of_int (case and_not_num n m of None \<Rightarrow> 0 | Some q \<Rightarrow> numeral q)"
    by (simp only: int_numeral_and_not_num)
  also have "\<dots> = (case and_not_num n m of None \<Rightarrow> 0 | Some q \<Rightarrow> numeral q)"
    by (simp split: option.split)
  finally show ?thesis .
qed

lemma lane_not_and_0: "NOT (0 :: lane) AND a = a" "NOT a AND (0 :: lane) = 0"
  by simp_all

lemma lane_of_nat_take_bit: "(of_nat (take_bit 64 k) :: lane) = of_nat k"
  by (simp add: word_of_nat_eq_iff)

lemma lane_push:
  "push_bit n (numeral m :: lane) = of_nat (take_bit 64 (push_bit n (numeral m :: nat)))"
  by (simp only: lane_of_nat_take_bit) (metis of_nat_numeral push_bit_of_nat)

lemma lane_drop:
  "drop_bit n (numeral m :: lane) = of_nat (drop_bit n (take_bit 64 (numeral m :: nat)))"
proof -
  have "unat (numeral m :: lane) = take_bit 64 (numeral m)"
    by simp
  then have "unat (drop_bit n (numeral m :: lane)) = drop_bit n (take_bit 64 (numeral m :: nat))"
    by (simp only: unat_drop_bit_eq)
  then show ?thesis
    by (metis of_nat_unat ucast_id)
qed

lemma lane_shift_0: "push_bit n (0 :: lane) = 0" "drop_bit n (0 :: lane) = 0"
  by simp_all

lemma nat_shift_0:
  "push_bit 0 (a :: nat) = a" "drop_bit 0 (a :: nat) = a"
  "push_bit n (0 :: nat) = 0" "drop_bit n (0 :: nat) = 0"
  by simp_all

lemma nat_drop_One: "drop_bit (numeral l) (numeral Num.One :: nat) = 0"
  by simp

lemma lane_of_nat: "(of_nat (numeral n) :: lane) = numeral n" "(of_nat 0 :: lane) = 0"
  by simp_all

lemma nth_Cons_pred: "(x # xs) ! numeral v = xs ! pred_numeral v"
  by (simp add: numeral_eq_Suc)

lemmas lane_eval =
  theta_lanes rho_pi_lanes chi_lanes iota_lanes keccak_round_def Let_def RC_def
  numeral_One [symmetric]
  lane_xor lane_xor_0 lane_or lane_or_0 lane_not_and lane_not_and_0 lane_push lane_drop
  lane_shift_0 nat_shift_0 nat_drop_One lane_of_nat
  xor_num.simps and_not_num.simps or_num.simps option.case option.map
  push_bit_numeral drop_bit_numeral_bit0 drop_bit_numeral_bit1 take_bit_numeral_numeral
  take_bit_num_simps pred_numeral_simps BitM.simps
  nth_Cons_pred nth_Cons_0

lemma funpow_push_bit: "(push_bit m ^^ n) (a :: lane) = push_bit (n * m) a"
  by (induction n) (simp_all add: add.commute)

lemma absorb_one_block: "length bs = 136 \<Longrightarrow> absorb A bs = keccak_f (xor_block A bs)"
  by (simp add: absorb.simps [of A bs] absorb.simps [of _ "[]"])

text \<open>The empty message: one padded block, one permutation.\<close>

lemma absorbed_empty:
  "xor_block (replicate 25 0) (pad []) =
     [0x0000000000000001, 0x0000000000000000, 0x0000000000000000, 0x0000000000000000,
      0x0000000000000000, 0x0000000000000000, 0x0000000000000000, 0x0000000000000000,
      0x0000000000000000, 0x0000000000000000, 0x0000000000000000, 0x0000000000000000,
      0x0000000000000000, 0x0000000000000000, 0x0000000000000000, 0x0000000000000000,
      0x8000000000000000, 0x0000000000000000, 0x0000000000000000, 0x0000000000000000,
      0x0000000000000000, 0x0000000000000000, 0x0000000000000000, 0x0000000000000000,
      0x0000000000000000]"
  by (simp add: pad_def xor_block_def load_lane_def upt25 funpow_push_bit)

lemma keccak_f_empty:
  "keccak_f
     [0x0000000000000001, 0x0000000000000000, 0x0000000000000000, 0x0000000000000000,
      0x0000000000000000, 0x0000000000000000, 0x0000000000000000, 0x0000000000000000,
      0x0000000000000000, 0x0000000000000000, 0x0000000000000000, 0x0000000000000000,
      0x0000000000000000, 0x0000000000000000, 0x0000000000000000, 0x0000000000000000,
      0x8000000000000000, 0x0000000000000000, 0x0000000000000000, 0x0000000000000000,
      0x0000000000000000, 0x0000000000000000, 0x0000000000000000, 0x0000000000000000,
      0x0000000000000000] =
     [0x3C23F7860146D2C5, 0xC003C7DCB27D7E92, 0x3B2782CA53B600E5, 0x70A4855D04D8FA7B,
      0x74A97CD82C9ABB3D, 0xCB9B1161ECB0A2B9, 0x1F2211C4C0F9ED5C, 0x820DC6175FA24161,
      0x81BABFBCAB8046D2, 0xB1D551B7242B765B, 0x3CF26D5EBA2553E8, 0x3BCE6A98FE5B7210,
      0xBA7D9FA73545D2A2, 0xFA0D3CD3B03B15BB, 0x3BFED7EB12C7CE09, 0xEB829C854E19A949,
      0x1B5D1A6545A611FF, 0x064146F400E16B72, 0xFE8734E16471AB9F, 0x9C3088BDEEBB0936,
      0xDEE8B8ECA7B2ACBA, 0x163B62B71DCF4521, 0x6B571B9910726D91, 0xB7FA22CF622318BE,
      0xA3FE1AF7779FAFD7]"
  by (simp only: keccak_f_def upt24 foldl.simps lane_eval)

lemma keccak_256_empty:
  "hexdigest (keccak_256 []) =
     ''c5d2460186f7233c927e7db2dcc703c0e500b653ca82273b7bfad8045d85a470''"
proof -
  have "length (pad []) = 136"
    by (simp add: pad_def)
  then have "keccak_256 [] =
      take 32 (concat (map store_lane (keccak_f (xor_block (replicate 25 0) (pad [])))))"
    by (simp add: keccak_256_def absorb_one_block)
  then show ?thesis
    by (simp add: absorbed_empty keccak_f_empty store_lane_def upt8 hexdigest_def hex_digit_def)
qed

text \<open>The message \<open>abc\<close>.\<close>

lemma absorbed_abc:
  "xor_block (replicate 25 0) (pad [0x61, 0x62, 0x63]) =
     [0x0000000001636261, 0x0000000000000000, 0x0000000000000000, 0x0000000000000000,
      0x0000000000000000, 0x0000000000000000, 0x0000000000000000, 0x0000000000000000,
      0x0000000000000000, 0x0000000000000000, 0x0000000000000000, 0x0000000000000000,
      0x0000000000000000, 0x0000000000000000, 0x0000000000000000, 0x0000000000000000,
      0x8000000000000000, 0x0000000000000000, 0x0000000000000000, 0x0000000000000000,
      0x0000000000000000, 0x0000000000000000, 0x0000000000000000, 0x0000000000000000,
      0x0000000000000000]"
  by (simp add: pad_def xor_block_def load_lane_def upt25 funpow_push_bit)

lemma keccak_f_abc:
  "keccak_f
     [0x0000000001636261, 0x0000000000000000, 0x0000000000000000, 0x0000000000000000,
      0x0000000000000000, 0x0000000000000000, 0x0000000000000000, 0x0000000000000000,
      0x0000000000000000, 0x0000000000000000, 0x0000000000000000, 0x0000000000000000,
      0x0000000000000000, 0x0000000000000000, 0x0000000000000000, 0x0000000000000000,
      0x8000000000000000, 0x0000000000000000, 0x0000000000000000, 0x0000000000000000,
      0x0000000000000000, 0x0000000000000000, 0x0000000000000000, 0x0000000000000000,
      0x0000000000000000] =
     [0x4FA945EA7A65034E, 0x67D6C826A87BD4C7, 0x36A0643AE3E6D1C0, 0x456C2DA18FF544EC,
      0xBBA2151EAC382C81, 0xFC2DA5E99F7D606F, 0x2CA151D9B481C415, 0x04F2E524AB2335FE,
      0x582AA0072A9DF8CD, 0x2BD18639E5A7AEFC, 0x84C8B945E8D84784, 0x728E60C1558BB1AA,
      0x1DDF4B907B006066, 0x2A9A8BC201255FC0, 0x93DD9B50F44A2B8B, 0x162EC00C86EC814A,
      0x4287101AF69EA11E, 0xD6C478D8DCCEDDF1, 0x2EB1C10BD6E58D8C, 0x93D65DCBAEC7D199,
      0x610A29FA9D470304, 0x7EA977F114D5C8D2, 0x50866F9F76E840D5, 0x891C6DC9E7A9B7CE,
      0xDAFF5E6DCD41BD9A]"
  by (simp only: keccak_f_def upt24 foldl.simps lane_eval)

lemma keccak_256_abc:
  "hexdigest (keccak_256 [0x61, 0x62, 0x63]) =
     ''4e03657aea45a94fc7d47ba826c8d667c0d1e6e33a64a036ec44f58fa12d6c45''"
proof -
  have "length (pad [0x61, 0x62, 0x63]) = 136"
    by (simp add: pad_def)
  then have "keccak_256 [0x61, 0x62, 0x63] =
      take 32 (concat (map store_lane (keccak_f (xor_block (replicate 25 0) (pad [0x61, 0x62, 0x63])))))"
    by (simp add: keccak_256_def absorb_one_block)
  then show ?thesis
    by (simp add: absorbed_abc keccak_f_abc store_lane_def upt8 hexdigest_def hex_digit_def)
qed

section \<open>Facts about the script\<close>


lemma main_line:
  assumes "stdin w = line # rest" and "encode line = Inr bs"
  shows "fst (main w) =
           Inr \<lparr>nama_ibu = line, encoded = bs, obj_encoded = keccak_256 bs,
                 digest_hex = hexdigest (keccak_256 bs)\<rparr>"
    and "trace (snd (main w)) =
           trace w @ [Stdout (banner @ [10]), Stdout (rule_line @ [10]), Prompt prompt_text,
                      Shell ''CLS'', Stdout (echo_line line), Stdout (digest_line bs)]"
    and "stdin (snd (main w)) = rest"
  using assms
  by (simp_all add: main_def input_def print_def os_system_def Let_def echo_line_def
      digest_line_def)

lemma main_line_error:
  assumes "stdin w = line # rest" and "encode line = Inl e"
  shows "fst (main w) = Inl e"
    and "trace (snd (main w)) =
           trace w @ [Stdout (banner @ [10]), Stdout (rule_line @ [10]), Prompt prompt_text,
                      Shell ''CLS'', Stdout (echo_line line)]"
  using assms
  by (simp_all add: main_def input_def print_def os_system_def Let_def echo_line_def)

lemma unicode_text_abc: "unicode_text (str ''abc'')"
  by (simp add: unicode_text_def scalar_value_def str_def)

lemma encode_abc: "encode (str ''abc'') = Inr [0x61, 0x62, 0x63]"
  by (simp add: str_def encode_char_def)

lemma encode_examples:
  "encode [0xE9] = Inr [0xC3, 0xA9]"
  "encode [0x20AC] = Inr [0xE2, 0x82, 0xAC]"
  "encode [0x1F600] = Inr [0xF0, 0x9F, 0x98, 0x80]"
  "encode [0x61, 0xDCFF] = Inl UnicodeEncodeError"
  by (simp_all add: encode_char_def)

lemma occurs_before_append_left:
  "occurs_before x y es \<Longrightarrow> occurs_before x y (pre @ es)"
  by (induction pre) simp_all

lemma encode_surrogate_line: "encode [0x61, 0xDCFF] = Inl UnicodeEncodeError"
  by (simp add: encode_char_def)

lemma stdin_surrogate_world: "stdin surrogate_world = [0x61, 0xDCFF] # []"
  by (simp add: surrogate_world_def)

lemma trace_surrogate_world: "trace surrogate_world = []"
  by (simp add: surrogate_world_def)


lemma stdin_empty_line_world: "stdin empty_line_world = [] # []"
  by (simp add: empty_line_world_def)

lemma encode_empty: "encode [] = Inr []"
  by simp

lemma stdin_abc_world: "stdin abc_world = str ''abc'' # []"
  by (simp add: abc_world_def)


lemma trace_abc_world: "trace abc_world = []"
  by (simp add: abc_world_def)

lemma echo_line_not_banner: "echo_line line \<noteq> banner @ [10]"
  by (simp add: echo_line_def label_before_def banner_def str_def)

lemma echo_line_not_rule_line: "echo_line line \<noteq> rule_line @ [10]"
  by (simp add: echo_line_def label_before_def rule_line_def str_def)

section \<open>The claims\<close>

text \<open>
  C1, as stated: for every input string the script prints a digest of 64 lowercase
  hexadecimal characters.  It does not: for the line \<open>a\<close> followed by the lone surrogate
  \<open>U+DCFF\<close>, \<open>encode\<close> raises \<open>UnicodeEncodeError\<close>; the script stops after
  the echo and writes no digest.
\<close>

theorem surrogate_line_no_digest:
  "fst (main surrogate_world) = Inl UnicodeEncodeError
   \<and> trace (snd (main surrogate_world)) =
       [Stdout (banner @ [10]), Stdout (rule_line @ [10]), Prompt prompt_text, Shell ''CLS'',
        Stdout (echo_line [0x61, 0xDCFF])]"
  by (simp add: main_line_error [OF stdin_surrogate_world encode_surrogate_line]
      trace_surrogate_world)

text \<open>
  C1, amended: for every line that strict UTF-8 can encode (every code point a Unicode
  scalar value; the empty line included) the script ends normally, and the digest it
  prints last is \<open>hexdigest\<close> of \<open>keccak_256\<close> of the encoded line: a Keccak-256 output
  of 32 bytes, rendered as exactly 64 characters, all of them lowercase hexadecimal
  digits.
\<close>

theorem digest_64_lower_hex:
  assumes "stdin w = line # rest" and "unicode_text line"
  shows "\<exists>bs. encode line = Inr bs
           \<and> fst (main w) = Inr \<lparr>nama_ibu = line, encoded = bs, obj_encoded = keccak_256 bs,
                                   digest_hex = hexdigest (keccak_256 bs)\<rparr>
           \<and> last (trace (snd (main w)))
               = Stdout (label_after @ [32] @ str (hexdigest (keccak_256 bs)) @ [10])
           \<and> length (keccak_256 bs) = 32
           \<and> length (hexdigest (keccak_256 bs)) = 64
           \<and> list_all is_lower_hex (hexdigest (keccak_256 bs))"
proof -
  from encode_unicode_text [OF assms(2)] obtain bs where bs: "encode line = Inr bs" ..
  show ?thesis
    by (simp add: main_line [OF assms(1) bs] bs digest_line_def length_hexdigest
        length_keccak_256 hexdigest_lower)
qed

theorem digest_64_lower_hex_witness:
  "stdin abc_world = str ''abc'' # [] \<and> unicode_text (str ''abc'')
   \<and> (\<exists>bs. encode (str ''abc'') = Inr bs
           \<and> fst (main abc_world)
               = Inr \<lparr>nama_ibu = str ''abc'', encoded = bs, obj_encoded = keccak_256 bs,
                       digest_hex = hexdigest (keccak_256 bs)\<rparr>
           \<and> last (trace (snd (main abc_world)))
               = Stdout (label_after @ [32] @ str (hexdigest (keccak_256 bs)) @ [10])
           \<and> length (keccak_256 bs) = 32
           \<and> length (hexdigest (keccak_256 bs)) = 64
           \<and> list_all is_lower_hex (hexdigest (keccak_256 bs)))"
proof -
  have h: "stdin abc_world = str ''abc'' # []" by (simp add: abc_world_def)
  from digest_64_lower_hex [OF h unicode_text_abc] h unicode_text_abc show ?thesis
    by blast
qed




text \<open>
  C10.  The status \<open>os.system('CLS')\<close> returns is dropped: whatever the command
  interpreter answers, the script gives the same result and the same effects, so a
  failing clear command neither stops the script nor changes the digest.
\<close>

theorem clear_status_is_dropped:
  "fst (main (w\<lparr>shell := f\<rparr>)) = fst (main w)
   \<and> trace (snd (main (w\<lparr>shell := f\<rparr>))) = trace (snd (main w))
   \<and> stdin (snd (main (w\<lparr>shell := f\<rparr>))) = stdin (snd (main w))"
  by (cases "stdin w")
     (auto simp: main_def input_def print_def os_system_def Let_def split: sum.splits)




text \<open>
  C5.  The bytes given to the hash are the UTF-8 encoding of the line as it was read,
  and nothing else: the script binds \<open>encoded\<close> to \<open>encode\<close> of the line and
  hashes exactly that.
\<close>

theorem hash_input_is_encoded_line:
  assumes "stdin w = line # rest" and "unicode_text line"
  shows "\<exists>ns bs. fst (main w) = Inr ns \<and> encode line = Inr bs
           \<and> nama_ibu ns = line \<and> encoded ns = bs
           \<and> obj_encoded ns = keccak_256 bs
           \<and> digest_hex ns = hexdigest (keccak_256 bs)"
proof -
  from encode_unicode_text [OF assms(2)] obtain bs where bs: "encode line = Inr bs" ..
  show ?thesis
    by (simp add: main_line(1) [OF assms(1) bs] bs)
qed

theorem hash_input_is_encoded_line_witness:
  "stdin abc_world = str ''abc'' # [] \<and> unicode_text (str ''abc'')
   \<and> (\<exists>ns bs. fst (main abc_world) = Inr ns \<and> encode (str ''abc'') = Inr bs
           \<and> nama_ibu ns = str ''abc'' \<and> encoded ns = bs
           \<and> obj_encoded ns = keccak_256 bs
           \<and> digest_hex ns = hexdigest (keccak_256 bs))"
  using hash_input_is_encoded_line [OF stdin_abc_world unicode_text_abc]
    stdin_abc_world unicode_text_abc
  by blast

text \<open>
  C6.  The script writes the line it read, unchanged, after the label and one space and
  before a newline; that write comes before the write of the digest, which is the last
  one.  When the line cannot be encoded the echo is still written and no digest follows.
\<close>

theorem echo_then_digest:
  assumes "stdin w = line # rest"
  shows "\<exists>tail. trace (snd (main w)) =
           trace w @ [Stdout (banner @ [10]), Stdout (rule_line @ [10]), Prompt prompt_text,
                      Shell ''CLS'', Stdout (label_before @ [32] @ line @ [10])] @ tail
           \<and> (case encode line of
                 Inr bs \<Rightarrow> tail = [Stdout (label_after @ [32] @ str (hexdigest (keccak_256 bs))
                                          @ [10])]
               | Inl e \<Rightarrow> tail = [])"
proof (cases "encode line")
  case (Inl e)
  show ?thesis
    by (simp add: main_line_error(2) [OF assms Inl] Inl echo_line_def)
next
  case (Inr bs)
  show ?thesis
    by (simp add: main_line(2) [OF assms Inr] Inr echo_line_def digest_line_def)
qed

theorem echo_then_digest_witness:
  "stdin abc_world = str ''abc'' # []
   \<and> (\<exists>tail. trace (snd (main abc_world)) =
           trace abc_world @ [Stdout (banner @ [10]), Stdout (rule_line @ [10]),
                      Prompt prompt_text, Shell ''CLS'',
                      Stdout (label_before @ [32] @ str ''abc'' @ [10])] @ tail
           \<and> (case encode (str ''abc'') of
                 Inr bs \<Rightarrow> tail = [Stdout (label_after @ [32] @ str (hexdigest (keccak_256 bs))
                                          @ [10])]
               | Inl e \<Rightarrow> tail = []))"
  using echo_then_digest [OF stdin_abc_world] stdin_abc_world
  by blast

text \<open>
  C7, as stated: the clear command comes after the write of the original text and
  before the write of the digest.  It does not: when the user types \<open>abc\<close>, the
  write of the original text does not come before the clear command.
\<close>

theorem clear_not_after_echo:
  "\<not> occurs_before (Stdout (echo_line (str ''abc''))) (Shell ''CLS'')
       (trace (snd (main abc_world)))"
  by (simp add: main_line(2) [OF stdin_abc_world encode_abc] trace_abc_world
      echo_line_not_banner [symmetric] echo_line_not_rule_line [symmetric])

text \<open>
  C7, amended: the clear command comes after the line is read and before both writes:
  before the write of the original text and, when a digest is written, before that too.
  In a run that starts with an empty trace the original text is not written before it.
\<close>

theorem clear_before_both_writes:
  assumes "stdin w = line # rest"
  shows "occurs_before (Prompt prompt_text) (Shell ''CLS'') (trace (snd (main w)))
     \<and> occurs_before (Shell ''CLS'') (Stdout (echo_line line)) (trace (snd (main w)))
     \<and> (case encode line of
           Inr bs \<Rightarrow> occurs_before (Shell ''CLS'') (Stdout (digest_line bs))
                       (trace (snd (main w)))
         | Inl e \<Rightarrow> True)
     \<and> (trace w = [] \<longrightarrow>
           \<not> occurs_before (Stdout (echo_line line)) (Shell ''CLS'') (trace (snd (main w))))"
proof (cases "encode line")
  case (Inl e)
  show ?thesis
    by (simp add: main_line_error(2) [OF assms Inl] Inl occurs_before_append_left
        echo_line_not_banner [symmetric] echo_line_not_rule_line [symmetric])
next
  case (Inr bs)
  show ?thesis
    by (simp add: main_line(2) [OF assms Inr] Inr occurs_before_append_left
        echo_line_not_banner [symmetric] echo_line_not_rule_line [symmetric])
qed

theorem clear_before_both_writes_witness:
  "stdin abc_world = str ''abc'' # [] \<and> trace abc_world = []
   \<and> occurs_before (Prompt prompt_text) (Shell ''CLS'') (trace (snd (main abc_world)))
   \<and> occurs_before (Shell ''CLS'') (Stdout (echo_line (str ''abc'')))
         (trace (snd (main abc_world)))
   \<and> occurs_before (Shell ''CLS'') (Stdout (digest_line [0x61, 0x62, 0x63]))
         (trace (snd (main abc_world)))
   \<and> \<not> occurs_before (Stdout (echo_line (str ''abc''))) (Shell ''CLS'')
         (trace (snd (main abc_world)))"
  using clear_before_both_writes [OF stdin_abc_world] stdin_abc_world trace_abc_world
  by (simp add: encode_abc)

text \<open>
  C2, as stated: the empty line gives the digest
  \<open>c5d2460186f7233c927e7db2dcc703c0e500b653ca82273b7bfad8045d85a47\<close>.  It does not:
  that string has 63 characters, the digest of the empty line has 64.
\<close>

theorem empty_digest_not_as_claimed:
  "encode [] = Inr []
   \<and> hexdigest (keccak_256 [])
       \<noteq> ''c5d2460186f7233c927e7db2dcc703c0e500b653ca82273b7bfad8045d85a47''
   \<and> digest_hex (projr (fst (main empty_line_world)))
       \<noteq> ''c5d2460186f7233c927e7db2dcc703c0e500b653ca82273b7bfad8045d85a47''"
  by (simp add: main_line(1) [OF stdin_empty_line_world encode_empty] keccak_256_empty)

text \<open>
  C2, amended: hashing the UTF-8 encoding of the empty string gives the digest
  \<open>c5d2460186f7233c927e7db2dcc703c0e500b653ca82273b7bfad8045d85a470\<close> (the claim's
  value followed by a final \<open>0\<close>), and that is what the script prints last when the
  user enters an empty line.
\<close>

theorem empty_line_digest:
  "encode [] = Inr []
   \<and> hexdigest (keccak_256 [])
       = ''c5d2460186f7233c927e7db2dcc703c0e500b653ca82273b7bfad8045d85a470''
   \<and> fst (main empty_line_world)
       = Inr \<lparr>nama_ibu = [], encoded = [], obj_encoded = keccak_256 [],
               digest_hex = ''c5d2460186f7233c927e7db2dcc703c0e500b653ca82273b7bfad8045d85a470''\<rparr>
   \<and> last (trace (snd (main empty_line_world)))
       = Stdout (label_after @ [32]
           @ str ''c5d2460186f7233c927e7db2dcc703c0e500b653ca82273b7bfad8045d85a470'' @ [10])"
  by (simp add: main_line [OF stdin_empty_line_world encode_empty] keccak_256_empty
      digest_line_def)

text \<open>
  C3.  Hashing the UTF-8 bytes of \<open>abc\<close> gives the digest
  \<open>4e03657aea45a94fc7d47ba826c8d667c0d1e6e33a64a036ec44f58fa12d6c45\<close>, and that is
  what the script prints last when the user enters the line \<open>abc\<close>.
\<close>

theorem abc_line_digest:
  "encode (str ''abc'') = Inr [0x61, 0x62, 0x63]
   \<and> hexdigest (keccak_256 [0x61, 0x62, 0x63])
       = ''4e03657aea45a94fc7d47ba826c8d667c0d1e6e33a64a036ec44f58fa12d6c45''
   \<and> fst (main abc_world)
       = Inr \<lparr>nama_ibu = str ''abc'', encoded = [0x61, 0x62, 0x63],
               obj_encoded = keccak_256 [0x61, 0x62, 0x63],
               digest_hex = ''4e03657aea45a94fc7d47ba826c8d667c0d1e6e33a64a036ec44f58fa12d6c45''\<rparr>
   \<and> last (trace (snd (main abc_world)))
       = Stdout (label_after @ [32]
           @ str ''4e03657aea45a94fc7d47ba826c8d667c0d1e6e33a64a036ec44f58fa12d6c45'' @ [10])"
  by (simp add: main_line [OF stdin_abc_world encode_abc] keccak_256_abc encode_abc
      digest_line_def)

end
